theory Spec2Isabelle
  imports Main
begin

section \<open>JavaScript values used by the client library\<close>

text \<open>
  A JavaScript string is modelled as an Isabelle \<open>string\<close>; each \<open>char\<close> stands for one
  code unit in the range 0..255.  A JavaScript number is a double.  The numbers that occur
  here are integral: they are modelled by their exact integer value, with \<open>NaN\<close> and the
  two infinities beside them, and every conversion into a number rounds as a double does.
\<close>

datatype js_error = Error string

datatype js_number = NaN | Num int | Infinity | NegInfinity

text \<open>
  The Number value of a non-negative integer: round to 53 significant bits, ties to even;
  a result of \<open>2^1024\<close> or more is out of range (\<open>None\<close>, that is, infinite).
\<close>

function bitLength :: "int \<Rightarrow> nat" where
  "bitLength n = (if n \<le> 0 then 0 else Suc (bitLength (n div 2)))"
  by pat_completeness auto
termination
  by (relation "measure nat") auto

declare bitLength.simps [simp del]

definition toDouble :: "int \<Rightarrow> int option" where
  "toDouble n =
     (let e = bitLength n - 53;
          q = n div 2 ^ e;
          r = n mod 2 ^ e;
          q' = (if 2 ^ e < 2 * r \<or> (2 * r = 2 ^ e \<and> q mod 2 = 1) then q + 1 else q);
          v = q' * 2 ^ e
      in if 2 ^ 1024 \<le> v then None else Some v)"

text \<open>
  White space as \<open>String.prototype.trim\<close> and \<open>parseInt\<close> see it, for code units below 256:
  TAB, LF, VT, FF, CR, SPACE and NO-BREAK SPACE.
\<close>

definition isWhiteSpace :: "char \<Rightarrow> bool" where
  "isWhiteSpace c = (of_char c \<in> {9, 10, 11, 12, 13, 32, 160 :: nat})"

definition trim :: "string \<Rightarrow> string" where
  "trim s = rev (dropWhile isWhiteSpace (rev (dropWhile isWhiteSpace s)))"

definition isDigit :: "char \<Rightarrow> bool" where
  "isDigit c = (c \<in> set ''0123456789'')"

definition digitVal :: "char \<Rightarrow> int" where
  "digitVal c = of_char c - 48"

definition digitsToInt :: "string \<Rightarrow> int" where
  "digitsToInt ds = foldl (\<lambda>acc c. 10 * acc + digitVal c) 0 ds"

text \<open>
  \<open>parseInt(inputString, 10)\<close>: skip leading white space, read an optional sign, then the
  longest run of decimal digits; no digit gives \<open>NaN\<close>.  Whatever follows the digits is
  ignored.  The result is the Number value of the digits, correctly rounded: beyond
  \<open>2^53\<close> it is the nearest double, and a run too large for a double gives \<open>Infinity\<close>
  or \<open>-Infinity\<close>.
\<close>

definition parseInt :: "string \<Rightarrow> js_number" where
  "parseInt inputString =
     (let S = dropWhile isWhiteSpace inputString;
          negative = (case S of [] \<Rightarrow> False | c # _ \<Rightarrow> c = CHR ''-'');
          S' = (case S of [] \<Rightarrow> [] | c # cs \<Rightarrow> if c = CHR ''+'' \<or> c = CHR ''-'' then cs else S);
          Z = takeWhile isDigit S'
      in if Z = [] then NaN
         else case toDouble (digitsToInt Z) of
                None \<Rightarrow> if negative then NegInfinity else Infinity
              | Some v \<Rightarrow> Num (if negative then - v else v))"

text \<open>\<open>String(v)\<close> for a header value: a missing header is \<open>undefined\<close>.\<close>

definition headerToString :: "string option \<Rightarrow> string" where
  "headerToString v = (case v of None \<Rightarrow> ''undefined'' | Some s \<Rightarrow> s)"

text \<open>\<open>!v\<close> for a header value: \<open>undefined\<close> and the empty string are falsy.\<close>

definition headerFalsy :: "string option \<Rightarrow> bool" where
  "headerFalsy v = (case v of None \<Rightarrow> True | Some s \<Rightarrow> s = [])"

text \<open>\<open>n || d\<close> for a number \<open>n\<close>: \<open>NaN\<close> and zero are falsy, everything else is truthy.\<close>

definition numOr :: "js_number \<Rightarrow> js_number \<Rightarrow> js_number" where
  "numOr n d = (if n = NaN \<or> n = Num 0 then d else n)"

text \<open>\<open>x >= k\<close> for a number \<open>x\<close> and an integer \<open>k\<close>.\<close>

definition numAtLeast :: "js_number \<Rightarrow> int \<Rightarrow> bool" where
  "numAtLeast x k = (case x of NaN \<Rightarrow> False | Num i \<Rightarrow> k \<le> i | Infinity \<Rightarrow> True | NegInfinity \<Rightarrow> False)"

section \<open>Pagination metadata (lib/pagination.js)\<close>

record PaginationMeta =
  currentPage :: js_number
  lastPage :: js_number
  perPage :: js_number
  total :: js_number

type_synonym headers = "string \<rightharpoonup> string"

definition extractPaginationFromHeaders :: "headers \<Rightarrow> PaginationMeta option" where
  "extractPaginationFromHeaders hs =
     (let currentPage = hs ''x-current-page'';
          lastPage = hs ''x-last-page'';
          perPage = hs ''x-per-page'';
          total = hs ''x-total''
      in if headerFalsy currentPage \<and> headerFalsy lastPage \<and> headerFalsy perPage \<and> headerFalsy total
         then None
         else Some \<lparr> currentPage = numOr (parseInt (headerToString currentPage)) (Num 1),
                     lastPage = numOr (parseInt (headerToString lastPage)) (Num 1),
                     perPage = numOr (parseInt (headerToString perPage)) (Num 15),
                     total = numOr (parseInt (headerToString total)) (Num 0) \<rparr>)"

text \<open>Whether a header value parses to a negative number.\<close>

definition parsesNegative :: "string option \<Rightarrow> bool" where
  "parsesNegative v =
     (case parseInt (headerToString v) of
        NaN \<Rightarrow> False | Num k \<Rightarrow> k < 0 | Infinity \<Rightarrow> False | NegInfinity \<Rightarrow> True)"

section \<open>Values, strings and URL search parameters\<close>

datatype js_value =
    JStr string
  | JNum int
  | JBool bool
  | JNull
  | JUndefined
  | JArr "js_value list"
  | JObj "(string \<times> js_value) list"

definition digitChar :: "int \<Rightarrow> char" where
  "digitChar n = char_of (48 + n)"

text \<open>The decimal digits of a non-negative integer.\<close>

function decimal :: "int \<Rightarrow> string" where
  "decimal n = (if n < 10 then [digitChar n] else decimal (n div 10) @ [digitChar (n mod 10)])"
  by pat_completeness auto
termination
  by (relation "measure nat") auto

declare decimal.simps [simp del]

text \<open>
  \<open>String(n)\<close> for an integral number, after \<open>Number::toString\<close>: the digits are those of
  the shortest decimal that still denotes the same double (the closest one, if several
  do), so an integer beyond \<open>2^53\<close> ends in zeros; from \<open>10^21\<close> on the exponent notation
  is used.  \<open>shortestFrom v d k\<close> searches with \<open>k\<close>, \<open>k + 1\<close>, ... significant digits for
  the number \<open>v\<close> of \<open>d\<close> digits.
\<close>

function shortestFrom :: "int \<Rightarrow> nat \<Rightarrow> nat \<Rightarrow> int" where
  "shortestFrom v d k =
     (if d \<le> k then v
      else
        let step = 10 ^ (d - k);
            lo = (v div step) * step;
            hi = lo + step;
            okLo = (toDouble lo = Some v);
            okHi = (toDouble hi = Some v)
        in if okLo \<and> okHi
           then (if v - lo < hi - v then lo
                 else if hi - v < v - lo then hi
                 else if (v div step) mod 2 = 0 then lo else hi)
           else if okLo then lo
           else if okHi then hi
           else shortestFrom v d (Suc k))"
  by pat_completeness auto
termination
  by (relation "measure (\<lambda>(v, d, k). d - k)") auto

declare shortestFrom.simps [simp del]

definition shortestDecimal :: "int \<Rightarrow> int" where
  "shortestDecimal v = shortestFrom v (length (decimal v)) 1"

definition renderDecimal :: "int \<Rightarrow> string" where
  "renderDecimal w =
     (let ds = decimal w
      in if w < 10 ^ 21 then ds
         else
           let s = rev (dropWhile (\<lambda>c. c = CHR ''0'') (rev ds));
               e = decimal (int (length ds) - 1)
           in (case s of [] \<Rightarrow> [] | c # cs \<Rightarrow> if cs = [] then [c] else c # CHR ''.'' # cs)
              @ ''e+'' @ e)"

definition numberToString :: "int \<Rightarrow> string" where
  "numberToString n =
     (if n = 0 then ''0''
      else (if n < 0 then ''-'' else []) @
           (case toDouble \<bar>n\<bar> of
              None \<Rightarrow> ''Infinity''
            | Some v \<Rightarrow> renderDecimal (shortestDecimal v)))"

text \<open>\<open>Array.prototype.join\<close> on an array of strings.\<close>

fun join :: "string \<Rightarrow> string list \<Rightarrow> string" where
  "join sep [] = []"
| "join sep [x] = x"
| "join sep (x # y # ys) = x @ sep @ join sep (y # ys)"

text \<open>
  \<open>String(v)\<close>, the conversion \<open>URLSearchParams.append\<close> and template literals apply to
  their arguments.  An array joins its elements with a comma, \<open>null\<close> and \<open>undefined\<close>
  elements giving the empty string; a plain object gives \<open>[object Object]\<close>.
\<close>

fun ToString :: "js_value \<Rightarrow> string" where
  "ToString (JStr s) = s"
| "ToString (JNum n) = numberToString n"
| "ToString (JBool b) = (if b then ''true'' else ''false'')"
| "ToString JNull = ''null''"
| "ToString JUndefined = ''undefined''"
| "ToString (JArr vs) =
     join '','' (map (\<lambda>v. if v = JNull \<or> v = JUndefined then [] else ToString v) vs)"
| "ToString (JObj kvs) = ''[object Object]''"

text \<open>
  A \<open>URLSearchParams\<close> object is its list of name-value pairs; \<open>append\<close> adds one at the
  end.  \<open>toString\<close> is the \<open>application/x-www-form-urlencoded\<close> serializer: letters, digits
  and \<open>* - . _\<close> stay, a space becomes \<open>+\<close>, every other code unit is percent-encoded
  byte by byte in UTF-8.
\<close>

type_synonym params = "(string \<times> string) list"

definition params_append :: "params \<Rightarrow> string \<Rightarrow> string \<Rightarrow> params" where
  "params_append ps name v = ps @ [(name, v)]"

definition isUrlSafe :: "char \<Rightarrow> bool" where
  "isUrlSafe c =
     (c \<in> set ''ABCDEFGHIJKLMNOPQRSTUVWXYZabcdefghijklmnopqrstuvwxyz0123456789*-._'')"

definition hexDigit :: "nat \<Rightarrow> char" where
  "hexDigit n = (if n < 10 then char_of (48 + n) else char_of (55 + n))"

definition percentByte :: "nat \<Rightarrow> string" where
  "percentByte b = [CHR ''%'', hexDigit (b div 16), hexDigit (b mod 16)]"

definition utf8Bytes :: "char \<Rightarrow> nat list" where
  "utf8Bytes c = (let n = of_char c in if n < 128 then [n] else [192 + n div 64, 128 + n mod 64])"

definition urlencodeChar :: "char \<Rightarrow> string" where
  "urlencodeChar c =
     (if c = CHR '' '' then ''+''
      else if isUrlSafe c then [c]
      else concat (map percentByte (utf8Bytes c)))"

definition urlencode :: "string \<Rightarrow> string" where
  "urlencode s = concat (map urlencodeChar s)"

definition params_toString :: "params \<Rightarrow> string" where
  "params_toString ps = join ''&'' (map (\<lambda>(name, v). urlencode name @ ''='' @ urlencode v) ps)"

section \<open>Query URLs (hooks/useModel.js)\<close>

text \<open>
  \<open>ModelQueryOptions\<close> of types/index.ts.  An optional property is an \<open>option\<close>; \<open>filters\<close>
  is an object, given by its properties (each key once) in the order of their insertion;
  a number stands for the double nearest to it.  The fields carry the prefix \<open>opt_\<close>
  (the names \<open>sort\<close> and \<open>perPage\<close> are taken already).
\<close>

record ModelQueryOptions =
  opt_filters :: "(string \<times> js_value) list option"
  opt_includes :: "string list option"
  opt_sort :: "string option"
  opt_fields :: "string list option"
  opt_search :: "string option"
  opt_page :: "int option"
  opt_perPage :: "int option"
  opt_per_page :: "int option"

text \<open>
  \<open>Object.entries\<close> lists the properties of an object with the array indices first (the
  keys that are the canonical decimal form of an integer below \<open>2^32 - 1\<close>), by ascending
  value, and then the other keys in the order of their insertion.
\<close>

definition isArrayIndex :: "string \<Rightarrow> bool" where
  "isArrayIndex key =
     (key \<noteq> [] \<and> list_all isDigit key \<and> (key = ''0'' \<or> hd key \<noteq> CHR ''0'') \<and>
      digitsToInt key < 2 ^ 32 - 1)"

fun insertIndex :: "(string \<times> 'v) \<Rightarrow> (string \<times> 'v) list \<Rightarrow> (string \<times> 'v) list" where
  "insertIndex kv [] = [kv]"
| "insertIndex kv (x # xs) =
     (if digitsToInt (fst kv) < digitsToInt (fst x) then kv # x # xs else x # insertIndex kv xs)"

definition Object_entries :: "(string \<times> 'v) list \<Rightarrow> (string \<times> 'v) list" where
  "Object_entries props =
     foldl (\<lambda>acc kv. insertIndex kv acc) [] (filter (\<lambda>kv. isArrayIndex (fst kv)) props) @
     filter (\<lambda>kv. \<not> isArrayIndex (fst kv)) props"

text \<open>\<open>a || b\<close> for two optional numbers: \<open>undefined\<close> and zero are falsy.\<close>

definition numOrOpt :: "int option \<Rightarrow> int option \<Rightarrow> int option" where
  "numOrOpt a b = (case a of None \<Rightarrow> b | Some k \<Rightarrow> if k = 0 then b else a)"

text \<open>The blocks of \<open>buildQueryUrl\<close> that fill the search parameters, one per option group.\<close>

definition addFilters :: "ModelQueryOptions \<Rightarrow> params \<Rightarrow> params" where
  "addFilters options ps =
     (case opt_filters options of
        None \<Rightarrow> ps
      | Some filters \<Rightarrow>
          foldl (\<lambda>acc (key, v). params_append acc (''filter['' @ key @ '']'') (ToString v)) ps
            (Object_entries filters))"

definition addIncludes :: "ModelQueryOptions \<Rightarrow> params \<Rightarrow> params" where
  "addIncludes options ps =
     (case opt_includes options of
        None \<Rightarrow> ps
      | Some incs \<Rightarrow> if length incs > 0 then params_append ps ''include'' (join '','' incs) else ps)"

definition addSort :: "ModelQueryOptions \<Rightarrow> params \<Rightarrow> params" where
  "addSort options ps =
     (case opt_sort options of
        None \<Rightarrow> ps
      | Some s \<Rightarrow> if s \<noteq> [] then params_append ps ''sort'' s else ps)"

definition addFields :: "ModelQueryOptions \<Rightarrow> params \<Rightarrow> params" where
  "addFields options ps =
     (case opt_fields options of
        None \<Rightarrow> ps
      | Some fs \<Rightarrow> if length fs > 0 then params_append ps ''fields'' (join '','' fs) else ps)"

definition addSearch :: "ModelQueryOptions \<Rightarrow> params \<Rightarrow> params" where
  "addSearch options ps =
     (case opt_search options of
        None \<Rightarrow> ps
      | Some s \<Rightarrow> if s \<noteq> [] then params_append ps ''search'' s else ps)"

definition addPage :: "ModelQueryOptions \<Rightarrow> params \<Rightarrow> params" where
  "addPage options ps =
     (case opt_page options of
        None \<Rightarrow> ps
      | Some p \<Rightarrow> if p \<noteq> 0 then params_append ps ''page'' (numberToString p) else ps)"

definition addPerPage :: "ModelQueryOptions \<Rightarrow> params \<Rightarrow> params" where
  "addPerPage options ps =
     (case numOrOpt (opt_perPage options) (opt_per_page options) of
        None \<Rightarrow> ps
      | Some n \<Rightarrow> if n \<noteq> 0 then params_append ps ''per_page'' (numberToString n) else ps)"

definition buildQueryUrl :: "string \<Rightarrow> string \<Rightarrow> ModelQueryOptions \<Rightarrow> js_error + string" where
  "buildQueryUrl model organization options =
     (if organization = [] then Inl (Error ''Organization slug is required'')
      else
        let orgSlug = trim organization in
        if orgSlug = []
        then Inl (Error ''Organization slug is required and must be a non-empty string'')
        else
          let url = ''/'' @ orgSlug @ ''/'' @ model;
              params = [];
              params = addFilters options params;
              params = addIncludes options params;
              params = addSort options params;
              params = addFields options params;
              params = addSearch options params;
              params = addPage options params;
              params = addPerPage options params;
              queryString = params_toString params
          in Inr (if queryString \<noteq> [] then url @ ''?'' @ queryString else url))"

text \<open>
  The \<open>finalUrl\<close> that the query function of \<open>useModelShow\<close> hands to \<open>api.get\<close>.  The hook
  itself returns early on a missing organization or id, before the query function exists.
  With \<open>includes\<close> and \<open>fields\<close> arrays, as declared, \<open>Array.isArray\<close> holds and they are joined.
\<close>

definition useModelShow_finalUrl ::
    "string \<Rightarrow> js_value \<Rightarrow> string \<Rightarrow> ModelQueryOptions \<Rightarrow> js_error + string" where
  "useModelShow_finalUrl model ident organization options =
     (let orgSlug = trim organization in
      if orgSlug = []
      then Inl (Error ''Organization slug is required. Please ensure you are logged in and have selected an organization.'')
      else
        let params = [];
            params = addIncludes options params;
            params = addFilters options params;
            params = addSort options params;
            params = addFields options params;
            queryString = params_toString params
        in Inr (if queryString \<noteq> []
                then ''/'' @ orgSlug @ ''/'' @ model @ ''/'' @ ToString ident @ ''?'' @ queryString
                else ''/'' @ orgSlug @ ''/'' @ model @ ''/'' @ ToString ident))"

section \<open>Nested operations (hooks/useModel.js)\<close>

datatype action = Create | Update | Delete

text \<open>\<open>NestedOperation\<close> of types/index.ts; the fields carry the prefix \<open>op_\<close>.\<close>

record NestedOperation =
  op_action :: action
  op_model :: string
  op_id :: "js_value option"
  op_data :: "(string \<times> js_value) list option"

text \<open>
  The transport: \<open>api.post(url, { operations })\<close> is a request; what comes back, after
  \<open>.then((res) => res.data)\<close>, is decided by the backend, a parameter of the model.  The
  client state records every request handed to the transport and every query key passed to
  \<open>queryClient.invalidateQueries\<close>.
\<close>

datatype request = Post string "NestedOperation list"

datatype queryKey = QueryKey string string

record client =
  sent :: "request list"
  invalidated :: "queryKey list"

definition api_post ::
    "(request \<Rightarrow> js_error + 'r) \<Rightarrow> string \<Rightarrow> NestedOperation list \<Rightarrow> client \<Rightarrow> (js_error + 'r) \<times> client" where
  "api_post backend url operations c =
     (backend (Post url operations), c\<lparr>sent := sent c @ [Post url operations]\<rparr>)"

definition invalidateQueries :: "queryKey \<Rightarrow> client \<Rightarrow> client" where
  "invalidateQueries k c = c\<lparr>invalidated := invalidated c @ [k]\<rparr>"

text \<open>A JavaScript \<open>Set\<close> keeps its elements in insertion order; \<open>add\<close> ignores a value it has.\<close>

definition set_add :: "'a list \<Rightarrow> 'a \<Rightarrow> 'a list" where
  "set_add s v = (if v \<in> set s then s else s @ [v])"

definition new_Set :: "'a list \<Rightarrow> 'a list" where
  "new_Set xs = foldl set_add [] xs"

definition mutationFn ::
    "string \<Rightarrow> (request \<Rightarrow> js_error + 'r) \<Rightarrow> NestedOperation list \<Rightarrow> client \<Rightarrow> (js_error + 'r) \<times> client" where
  "mutationFn organization backend operations c =
     (let url = ''/'' @ organization @ ''/nested-operations''
      in api_post backend url operations c)"

definition onSuccess :: "NestedOperation list \<Rightarrow> client \<Rightarrow> client" where
  "onSuccess operations c =
     (let affectedModels = new_Set (map op_model operations)
      in foldl (\<lambda>c' model.
           invalidateQueries (QueryKey ''modelShow'' model)
             (invalidateQueries (QueryKey ''modelIndex'' model) c')) c affectedModels)"

text \<open>
  \<open>useNestedOperations\<close> throws without an organization.  Otherwise a call of the mutation
  runs \<open>mutationFn\<close> and, when it resolves, \<open>onSuccess\<close>; a rejection skips \<open>onSuccess\<close>.
\<close>

definition useNestedOperations ::
    "string \<Rightarrow> (request \<Rightarrow> js_error + 'r) \<Rightarrow> NestedOperation list \<Rightarrow> client \<Rightarrow> (js_error + 'r) \<times> client" where
  "useNestedOperations organization backend operations c =
     (if organization = []
      then (Inl (Error ''Organization slug is required. All routes must include organization in the URL (e.g., /org-slug/dashboard)''), c)
      else
        case mutationFn organization backend operations c of
          (Inl e, c') \<Rightarrow> (Inl e, c')
        | (Inr d, c') \<Rightarrow> (Inr d, onSuccess operations c'))"

subsection \<open>Reference tokens, as the specification words them\<close>

text \<open>
  The source has no notion of a reference token.  The following predicates follow the
  specification's wording (a string leaf \<open>$N.fieldPath\<close> inside \<open>id\<close> or \<open>data\<close>; a forward
  or self reference has \<open>N\<close> at least the index of its operation) and serve only to say
  which batches the specification calls invalid.
\<close>

fun spec_stringLeaves :: "js_value \<Rightarrow> string list" where
  "spec_stringLeaves (JStr s) = [s]"
| "spec_stringLeaves (JArr vs) = concat (map spec_stringLeaves vs)"
| "spec_stringLeaves (JObj kvs) = concat (map (\<lambda>kv. spec_stringLeaves (snd kv)) kvs)"
| "spec_stringLeaves _ = []"

definition spec_referenceIndex :: "string \<Rightarrow> int option" where
  "spec_referenceIndex tok =
     (case tok of
        [] \<Rightarrow> None
      | c # rest \<Rightarrow>
          if c = CHR ''$'' \<and> takeWhile isDigit rest \<noteq> [] \<and>
             (case dropWhile isDigit rest of d # p # _ \<Rightarrow> d = CHR ''.'' | _ \<Rightarrow> False)
          then Some (digitsToInt (takeWhile isDigit rest))
          else None)"

definition spec_operationTokens :: "NestedOperation \<Rightarrow> string list" where
  "spec_operationTokens operation =
     (case op_id operation of None \<Rightarrow> [] | Some v \<Rightarrow> spec_stringLeaves v) @
     (case op_data operation of None \<Rightarrow> []
      | Some kvs \<Rightarrow> concat (map (\<lambda>kv. spec_stringLeaves (snd kv)) kvs))"

definition spec_hasForwardReference :: "NestedOperation list \<Rightarrow> bool" where
  "spec_hasForwardReference operations =
     list_ex (\<lambda>(i, operation).
        list_ex (\<lambda>tok. case spec_referenceIndex tok of None \<Rightarrow> False | Some n \<Rightarrow> int i \<le> n)
          (spec_operationTokens operation))
       (enumerate 0 operations)"

section \<open>Properties of the pagination extractor\<close>

lemma extract_Some_fields:
  "extractPaginationFromHeaders hs = Some m \<Longrightarrow>
     m = \<lparr> currentPage = numOr (parseInt (headerToString (hs ''x-current-page''))) (Num 1),
           lastPage = numOr (parseInt (headerToString (hs ''x-last-page''))) (Num 1),
           perPage = numOr (parseInt (headerToString (hs ''x-per-page''))) (Num 15),
           total = numOr (parseInt (headerToString (hs ''x-total''))) (Num 0) \<rparr>"
  by (simp add: extractPaginationFromHeaders_def Let_def split: if_splits)

lemma extract_None_iff:
  "(extractPaginationFromHeaders hs = None) =
     (headerFalsy (hs ''x-current-page'') \<and> headerFalsy (hs ''x-last-page'') \<and>
      headerFalsy (hs ''x-per-page'') \<and> headerFalsy (hs ''x-total''))"
  by (simp add: extractPaginationFromHeaders_def Let_def)

lemma headerFalsy_iff: "headerFalsy v = (v = None \<or> v = Some [])"
  by (simp add: headerFalsy_def split: option.splits)

lemma parseInt_zero: "parseInt ''0'' = Num 0"
  by code_simp

lemma numOr_cases:
  "numOr NaN d = d" "numOr (Num k) d = (if k = 0 then d else Num k)"
  "numOr Infinity d = Infinity" "numOr NegInfinity d = NegInfinity"
  by (simp_all add: numOr_def)

text \<open>
  C2, as stated, fails: with the header \<open>x-current-page\<close> present and equal to \<open>"0"\<close>,
  \<open>parseInt\<close> gives 0, which is falsy, so \<open>parseInt(currentPage, 10) || 1\<close> is the default 1.
\<close>

theorem zero_header_counterexample:
  "extractPaginationFromHeaders [''x-current-page'' \<mapsto> ''0''] =
     Some \<lparr> currentPage = Num 1, lastPage = Num 1, perPage = Num 15, total = Num 0 \<rparr>"
  by code_simp

text \<open>
  C2 (amended): when one of the four headers is the literal string \<open>"0"\<close> the result is
  non-null, and a header equal to \<open>"0"\<close> gives 0 for \<open>total\<close> only, where 0 is the default
  as well; for \<open>currentPage\<close>, \<open>lastPage\<close> and \<open>perPage\<close> it gives the defaults 1, 1 and 15.
\<close>

theorem zero_header_fields:
  assumes "hs ''x-current-page'' = Some ''0'' \<or> hs ''x-last-page'' = Some ''0'' \<or>
           hs ''x-per-page'' = Some ''0'' \<or> hs ''x-total'' = Some ''0''"
  shows "\<exists>m. extractPaginationFromHeaders hs = Some m \<and>
           (hs ''x-current-page'' = Some ''0'' \<longrightarrow> currentPage m = Num 1) \<and>
           (hs ''x-last-page'' = Some ''0'' \<longrightarrow> lastPage m = Num 1) \<and>
           (hs ''x-per-page'' = Some ''0'' \<longrightarrow> perPage m = Num 15) \<and>
           (hs ''x-total'' = Some ''0'' \<longrightarrow> total m = Num 0)"
proof -
  from assms have "extractPaginationFromHeaders hs \<noteq> None"
    by (auto simp: extract_None_iff headerFalsy_iff)
  then obtain m where m: "extractPaginationFromHeaders hs = Some m"
    by blast
  have z: "parseInt (headerToString (Some ''0'')) = Num 0"
    using parseInt_zero by (simp add: headerToString_def)
  from extract_Some_fields [OF m] z
  have "(hs ''x-current-page'' = Some ''0'' \<longrightarrow> currentPage m = Num 1) \<and>
        (hs ''x-last-page'' = Some ''0'' \<longrightarrow> lastPage m = Num 1) \<and>
        (hs ''x-per-page'' = Some ''0'' \<longrightarrow> perPage m = Num 15) \<and>
        (hs ''x-total'' = Some ''0'' \<longrightarrow> total m = Num 0)"
    by (simp add: numOr_cases)
  with m show ?thesis by blast
qed

theorem zero_header_fields_witness:
  "extractPaginationFromHeaders
     [''x-current-page'' \<mapsto> ''0'', ''x-last-page'' \<mapsto> ''0'', ''x-per-page'' \<mapsto> ''0'', ''x-total'' \<mapsto> ''0'']
   = Some \<lparr> currentPage = Num 1, lastPage = Num 1, perPage = Num 15, total = Num 0 \<rparr>"
  using zero_header_fields
    [of "[''x-current-page'' \<mapsto> ''0'', ''x-last-page'' \<mapsto> ''0'', ''x-per-page'' \<mapsto> ''0'', ''x-total'' \<mapsto> ''0'']"]
  by auto

text \<open>
  C4, as stated, fails: the test \<open>!currentPage && !lastPage && !perPage && !total\<close> is on
  truthiness, so a header that is present with the empty string as its value counts as
  missing, and the result is \<open>null\<close> although a header is present.
\<close>

theorem null_result_counterexample:
  "[''x-total'' \<mapsto> ''''] ''x-total'' \<noteq> None \<and>
   extractPaginationFromHeaders [''x-total'' \<mapsto> ''''] = None"
  by (simp add: extractPaginationFromHeaders_def headerFalsy_def)

text \<open>
  C4 (amended): \<open>extractPaginationFromHeaders\<close> returns \<open>null\<close> if and only if each of the
  four headers is absent or the empty string; so whenever one of them is present and
  non-empty, numeric or not, the result is a non-null \<open>PaginationMeta\<close>.
\<close>

theorem null_result_iff:
  "(extractPaginationFromHeaders hs = None) =
     ((hs ''x-current-page'' = None \<or> hs ''x-current-page'' = Some '''') \<and>
      (hs ''x-last-page'' = None \<or> hs ''x-last-page'' = Some '''') \<and>
      (hs ''x-per-page'' = None \<or> hs ''x-per-page'' = Some '''') \<and>
      (hs ''x-total'' = None \<or> hs ''x-total'' = Some ''''))"
  by (simp add: extract_None_iff headerFalsy_iff)

theorem null_result_iff_witness:
  "extractPaginationFromHeaders Map.empty = None \<and>
   extractPaginationFromHeaders [''x-per-page'' \<mapsto> ''abc''] \<noteq> None"
  using null_result_iff [of Map.empty] null_result_iff [of "[''x-per-page'' \<mapsto> ''abc'']"]
  by simp

text \<open>
  C6, as stated, fails: \<open>parseInt\<close> accepts a sign, and a negative number is truthy, so the
  headers \<open>x-current-page: -5\<close> and \<open>x-total: -3\<close> give a page of -5 and a total of -3.
\<close>

theorem field_bounds_counterexample:
  "extractPaginationFromHeaders [''x-current-page'' \<mapsto> ''-5'', ''x-total'' \<mapsto> ''-3''] =
     Some \<lparr> currentPage = Num (- 5), lastPage = Num 1, perPage = Num 15, total = Num (- 3) \<rparr>"
  by code_simp

text \<open>
  C6 (amended): in every non-null \<open>PaginationMeta\<close> returned, each field whose header does
  not parse to a negative number (a negative integer or \<open>-Infinity\<close>) is within its bound:
  \<open>currentPage\<close>, \<open>lastPage\<close> and \<open>perPage\<close> are at least 1 and \<open>total\<close> is at least 0.
\<close>

theorem field_bounds_nonnegative:
  assumes "extractPaginationFromHeaders hs = Some m"
  shows "(\<not> parsesNegative (hs ''x-current-page'') \<longrightarrow> numAtLeast (currentPage m) 1) \<and>
         (\<not> parsesNegative (hs ''x-last-page'') \<longrightarrow> numAtLeast (lastPage m) 1) \<and>
         (\<not> parsesNegative (hs ''x-per-page'') \<longrightarrow> numAtLeast (perPage m) 1) \<and>
         (\<not> parsesNegative (hs ''x-total'') \<longrightarrow> numAtLeast (total m) 0)"
proof -
  have pos: "numAtLeast (numOr p (Num d)) 1"
    if "\<not> (case p of NaN \<Rightarrow> False | Num k \<Rightarrow> k < 0 | Infinity \<Rightarrow> False | NegInfinity \<Rightarrow> True)"
      and "1 \<le> d" for p d
    using that by (cases p) (auto simp: numOr_def numAtLeast_def)
  have nn: "numAtLeast (numOr p (Num 0)) 0"
    if "\<not> (case p of NaN \<Rightarrow> False | Num k \<Rightarrow> k < 0 | Infinity \<Rightarrow> False | NegInfinity \<Rightarrow> True)"
    for p
    using that by (cases p) (auto simp: numOr_def numAtLeast_def)
  show ?thesis
    unfolding extract_Some_fields [OF assms] parsesNegative_def
    using pos nn by simp
qed

theorem field_bounds_nonnegative_witness:
  "extractPaginationFromHeaders [''x-current-page'' \<mapsto> ''2'', ''x-total'' \<mapsto> ''100''] =
     Some \<lparr> currentPage = Num 2, lastPage = Num 1, perPage = Num 15, total = Num 100 \<rparr> \<and>
   numAtLeast (currentPage \<lparr> currentPage = Num 2, lastPage = Num 1, perPage = Num 15, total = Num 100 \<rparr>) 1 \<and>
   numAtLeast (total \<lparr> currentPage = Num 2, lastPage = Num 1, perPage = Num 15, total = Num 100 \<rparr>) 0"
proof -
  have h: "extractPaginationFromHeaders [''x-current-page'' \<mapsto> ''2'', ''x-total'' \<mapsto> ''100''] =
     Some \<lparr> currentPage = Num 2, lastPage = Num 1, perPage = Num 15, total = Num 100 \<rparr>"
    by code_simp
  have n: "\<not> parsesNegative (Some ''2'')" "\<not> parsesNegative (Some ''100'')"
    by code_simp+
  show ?thesis
    using h n field_bounds_nonnegative [OF h] by simp
qed

text \<open>
  C9, as stated, fails: a digit run too long for a double does not parse to a finite
  integer, it parses to \<open>Infinity\<close>; \<open>Infinity\<close> is truthy, so the field is \<open>Infinity\<close> and
  not the default.  Here \<open>x-total\<close> is a 1 followed by 309 zeros.
\<close>

theorem infinite_header_counterexample:
  "extractPaginationFromHeaders [''x-total'' \<mapsto> CHR ''1'' # replicate 309 (CHR ''0'')] =
     Some \<lparr> currentPage = Num 1, lastPage = Num 1, perPage = Num 15, total = Infinity \<rparr>"
  by code_simp

text \<open>
  C9 (amended): in a non-null result, a header that is present and on which \<open>parseInt\<close>
  gives \<open>NaN\<close> (no digit after the optional white space and sign) leaves its own field at
  that field's default (1, 1, 15, 0), and each field is read from its own header alone:
  a header that parses to a number other than zero gives that number, whatever the other
  headers hold.  This includes \<open>Infinity\<close> and \<open>-Infinity\<close>, which a digit run too long for
  a double parses to: they are returned, not replaced by the default.
\<close>

theorem nonnumeric_header_default:
  assumes "extractPaginationFromHeaders hs = Some m"
  shows "(hs ''x-current-page'' = Some v1 \<and> parseInt v1 = NaN \<longrightarrow> currentPage m = Num 1) \<and>
         (hs ''x-last-page'' = Some v2 \<and> parseInt v2 = NaN \<longrightarrow> lastPage m = Num 1) \<and>
         (hs ''x-per-page'' = Some v3 \<and> parseInt v3 = NaN \<longrightarrow> perPage m = Num 15) \<and>
         (hs ''x-total'' = Some v4 \<and> parseInt v4 = NaN \<longrightarrow> total m = Num 0) \<and>
         (hs ''x-current-page'' = Some w1 \<and> parseInt w1 \<noteq> NaN \<and> parseInt w1 \<noteq> Num 0 \<longrightarrow>
            currentPage m = parseInt w1) \<and>
         (hs ''x-last-page'' = Some w2 \<and> parseInt w2 \<noteq> NaN \<and> parseInt w2 \<noteq> Num 0 \<longrightarrow>
            lastPage m = parseInt w2) \<and>
         (hs ''x-per-page'' = Some w3 \<and> parseInt w3 \<noteq> NaN \<and> parseInt w3 \<noteq> Num 0 \<longrightarrow>
            perPage m = parseInt w3) \<and>
         (hs ''x-total'' = Some w4 \<and> parseInt w4 \<noteq> NaN \<longrightarrow> total m = parseInt w4)"
  unfolding extract_Some_fields [OF assms]
  by (simp add: headerToString_def numOr_def)

theorem nonnumeric_header_default_witness:
  "extractPaginationFromHeaders
     [''x-current-page'' \<mapsto> ''abc'', ''x-last-page'' \<mapsto> ''10'', ''x-per-page'' \<mapsto> ''20'', ''x-total'' \<mapsto> ''50'']
   = Some \<lparr> currentPage = Num 1, lastPage = Num 10, perPage = Num 20, total = Num 50 \<rparr> \<and>
   parseInt ''abc'' = NaN \<and>
   currentPage \<lparr> currentPage = Num 1, lastPage = Num 10, perPage = Num 20, total = Num 50 \<rparr> = Num 1"
proof -
  let ?hs = "[''x-current-page'' \<mapsto> ''abc'', ''x-last-page'' \<mapsto> ''10'', ''x-per-page'' \<mapsto> ''20'', ''x-total'' \<mapsto> ''50'']"
  have h: "extractPaginationFromHeaders ?hs =
      Some \<lparr> currentPage = Num 1, lastPage = Num 10, perPage = Num 20, total = Num 50 \<rparr>"
    by code_simp
  have p: "parseInt ''abc'' = NaN"
    by code_simp
  show ?thesis
    using h p nonnumeric_header_default [OF h, of "''abc''"] by simp
qed

section \<open>Properties of the URL builders\<close>

lemma foldl_params_append:
  "foldl (\<lambda>acc (key, v). params_append acc (f key) (g v)) ps es =
     ps @ map (\<lambda>(key, v). (f key, g v)) es"
  by (induction es arbitrary: ps) (auto simp: params_append_def)

lemma addFilters_eq:
  "addFilters options ps = ps @
     (case opt_filters options of None \<Rightarrow> []
      | Some fs \<Rightarrow> map (\<lambda>(key, v). (''filter['' @ key @ '']'', ToString v)) (Object_entries fs))"
  by (simp add: addFilters_def foldl_params_append split: option.splits)

lemma addIncludes_eq:
  "addIncludes options ps = ps @
     (case opt_includes options of None \<Rightarrow> []
      | Some incs \<Rightarrow> if incs = [] then [] else [(''include'', join '','' incs)])"
  by (simp add: addIncludes_def params_append_def split: option.splits)

lemma addSort_eq:
  "addSort options ps = ps @
     (case opt_sort options of None \<Rightarrow> []
      | Some s \<Rightarrow> if s = [] then [] else [(''sort'', s)])"
  by (simp add: addSort_def params_append_def split: option.splits)

lemma addFields_eq:
  "addFields options ps = ps @
     (case opt_fields options of None \<Rightarrow> []
      | Some fs \<Rightarrow> if fs = [] then [] else [(''fields'', join '','' fs)])"
  by (simp add: addFields_def params_append_def split: option.splits)










lemma params_toString_empty_iff: "(params_toString ps = []) = (ps = [])"
proof (cases ps)
  case Nil
  then show ?thesis by (simp add: params_toString_def)
next
  case (Cons p rest)
  obtain name v where p: "p = (name, v)" by (cases p)
  have "join ''&'' ((urlencode name @ ''='' @ urlencode v) # more) \<noteq> []" for more
    by (cases more) simp_all
  with Cons p show ?thesis by (simp add: params_toString_def)
qed

lemma buildQueryUrl_ok:
  "trim organization \<noteq> [] \<Longrightarrow>
   buildQueryUrl model organization options =
     Inr (''/'' @ trim organization @ ''/'' @ model @
       (if params_toString
            (addPerPage options (addPage options (addSearch options (addFields options
              (addSort options (addIncludes options (addFilters options []))))))) = []
        then []
        else ''?'' @ params_toString
            (addPerPage options (addPage options (addSearch options (addFields options
              (addSort options (addIncludes options (addFilters options [])))))))))"
  by (auto simp: buildQueryUrl_def Let_def trim_def)

lemma useModelShow_finalUrl_ok:
  "trim organization \<noteq> [] \<Longrightarrow>
   useModelShow_finalUrl model ident organization options =
     Inr (''/'' @ trim organization @ ''/'' @ model @ ''/'' @ ToString ident @
       (if params_toString
            (addFields options (addSort options (addFilters options (addIncludes options [])))) = []
        then []
        else ''?'' @ params_toString
            (addFields options (addSort options (addFilters options (addIncludes options []))))))"
  by (auto simp: useModelShow_finalUrl_def Let_def)




text \<open>
  C7: when the tenant is empty after trimming, \<open>buildQueryUrl\<close> throws for every model
  name and all options: \<open>Organization slug is required\<close> for the empty string, and the
  longer message for a tenant of white space only.  No URL is produced.
\<close>

theorem buildQueryUrl_blank_tenant:
  assumes "trim tenant = []"
  shows "buildQueryUrl model tenant options =
           Inl (Error (if tenant = [] then ''Organization slug is required''
                       else ''Organization slug is required and must be a non-empty string''))"
  using assms by (simp add: buildQueryUrl_def Let_def)

theorem buildQueryUrl_blank_tenant_witness:
  "trim '''' = [] \<and> trim ''   '' = [] \<and>
   buildQueryUrl ''posts'' ''''
     \<lparr> opt_filters = None, opt_includes = None, opt_sort = None, opt_fields = None,
       opt_search = None, opt_page = None, opt_perPage = None, opt_per_page = None \<rparr> =
     Inl (Error ''Organization slug is required'') \<and>
   buildQueryUrl ''posts'' ''   ''
     \<lparr> opt_filters = None, opt_includes = None, opt_sort = None, opt_fields = None,
       opt_search = None, opt_page = None, opt_perPage = None, opt_per_page = None \<rparr> =
     Inl (Error ''Organization slug is required and must be a non-empty string'')"
proof -
  have e: "trim '''' = []" and b: "trim ''   '' = []"
    by (simp_all add: trim_def isWhiteSpace_def)
  show ?thesis
    using e b
      buildQueryUrl_blank_tenant [OF e, of "''posts''"
        "\<lparr> opt_filters = None, opt_includes = None, opt_sort = None, opt_fields = None,
          opt_search = None, opt_page = None, opt_perPage = None, opt_per_page = None \<rparr>"]
      buildQueryUrl_blank_tenant [OF b, of "''posts''"
        "\<lparr> opt_filters = None, opt_includes = None, opt_sort = None, opt_fields = None,
          opt_search = None, opt_page = None, opt_perPage = None, opt_per_page = None \<rparr>"]
    by simp
qed

text \<open>
  C10: for a tenant that is not blank, the URL is \<open>/\<close>, the trimmed tenant, \<open>/\<close> and the
  model name, both copied as they are, followed by nothing or by \<open>?\<close> and the serialized
  parameters.  Only the parameters go through the encoder; the path does not.
\<close>

theorem buildQueryUrl_path_verbatim:
  assumes "trim tenant \<noteq> []"
  shows "\<exists>params. buildQueryUrl model tenant options =
           Inr ((''/'' @ trim tenant @ ''/'' @ model) @
                (if params = [] then []
                 else ''?'' @ join ''&'' (map (\<lambda>(name, v). urlencode name @ ''='' @ urlencode v) params)))"
proof -
  let ?ps = "addPerPage options (addPage options (addSearch options (addFields options
              (addSort options (addIncludes options (addFilters options []))))))"
  show ?thesis
    unfolding buildQueryUrl_ok [OF assms]
    by (rule exI [of _ ?ps], simp only: params_toString_empty_iff, simp add: params_toString_def)
qed

theorem buildQueryUrl_path_verbatim_witness:
  "trim '' a/b '' \<noteq> [] \<and>
   buildQueryUrl ''x?y&z'' '' a/b ''
     \<lparr> opt_filters = None, opt_includes = None, opt_sort = Some ''a/b'', opt_fields = None,
       opt_search = None, opt_page = None, opt_perPage = None, opt_per_page = None \<rparr> =
     Inr ''/a/b/x?y&z?sort=a%2Fb''"
proof -
  have t: "trim '' a/b '' \<noteq> []"
    by code_simp
  have "buildQueryUrl ''x?y&z'' '' a/b ''
     \<lparr> opt_filters = None, opt_includes = None, opt_sort = Some ''a/b'', opt_fields = None,
       opt_search = None, opt_page = None, opt_perPage = None, opt_per_page = None \<rparr> =
     Inr ''/a/b/x?y&z?sort=a%2Fb''"
    by code_simp
  with t buildQueryUrl_path_verbatim [OF t] show ?thesis by blast
qed

text \<open>
  C3, as stated, fails on the order: the query function of \<open>useModelShow\<close> appends
  \<open>include\<close> before the filters, whereas \<open>buildQueryUrl\<close> appends the filters first.
\<close>

theorem useModelShow_order_counterexample:
  "useModelShow_finalUrl ''posts'' (JNum 1) ''my-org''
     \<lparr> opt_filters = Some [(''status'', JStr ''active'')], opt_includes = Some [''author''],
       opt_sort = None, opt_fields = None, opt_search = None, opt_page = None,
       opt_perPage = None, opt_per_page = None \<rparr> =
     Inr ''/my-org/posts/1?include=author&filter%5Bstatus%5D=active'' \<and>
   buildQueryUrl ''posts'' ''my-org''
     \<lparr> opt_filters = Some [(''status'', JStr ''active'')], opt_includes = Some [''author''],
       opt_sort = None, opt_fields = None, opt_search = None, opt_page = None,
       opt_perPage = None, opt_per_page = None \<rparr> =
     Inr ''/my-org/posts?filter%5Bstatus%5D=active&include=author''"
  by code_simp

text \<open>
  C3 (amended): for an organization that is not blank, the query function of
  \<open>useModelShow\<close> requests \<open>/tenant/model/id\<close> followed by the parameters of the groups
  include, filters, sort, fields only, in this order (include first, unlike
  \<open>buildQueryUrl\<close>); search and pagination options never change the URL.
\<close>

theorem useModelShow_parameter_order:
  assumes "trim organization \<noteq> []"
  shows "useModelShow_finalUrl model ident organization options =
     (let params =
            (case opt_includes options of None \<Rightarrow> []
             | Some incs \<Rightarrow> if incs = [] then [] else [(''include'', join '','' incs)]) @
            (case opt_filters options of None \<Rightarrow> []
             | Some fs \<Rightarrow> map (\<lambda>(key, v). (''filter['' @ key @ '']'', ToString v)) (Object_entries fs)) @
            (case opt_sort options of None \<Rightarrow> []
             | Some s \<Rightarrow> if s = [] then [] else [(''sort'', s)]) @
            (case opt_fields options of None \<Rightarrow> []
             | Some fs \<Rightarrow> if fs = [] then [] else [(''fields'', join '','' fs)]);
          queryString = params_toString params
      in Inr (''/'' @ trim organization @ ''/'' @ model @ ''/'' @ ToString ident @
              (if queryString = [] then [] else ''?'' @ queryString))) \<and>
     useModelShow_finalUrl model ident organization
       (options\<lparr> opt_search := s, opt_page := p, opt_perPage := n, opt_per_page := n' \<rparr>) =
     useModelShow_finalUrl model ident organization options"
proof -
  have closed: "useModelShow_finalUrl model ident organization opts =
     (let params =
            (case opt_includes opts of None \<Rightarrow> []
             | Some incs \<Rightarrow> if incs = [] then [] else [(''include'', join '','' incs)]) @
            (case opt_filters opts of None \<Rightarrow> []
             | Some fs \<Rightarrow> map (\<lambda>(key, v). (''filter['' @ key @ '']'', ToString v)) (Object_entries fs)) @
            (case opt_sort opts of None \<Rightarrow> []
             | Some s \<Rightarrow> if s = [] then [] else [(''sort'', s)]) @
            (case opt_fields opts of None \<Rightarrow> []
             | Some fs \<Rightarrow> if fs = [] then [] else [(''fields'', join '','' fs)]);
          queryString = params_toString params
      in Inr (''/'' @ trim organization @ ''/'' @ model @ ''/'' @ ToString ident @
              (if queryString = [] then [] else ''?'' @ queryString)))" for opts
    unfolding useModelShow_finalUrl_ok [OF assms]
    by (simp only: addFilters_eq addIncludes_eq addSort_eq addFields_eq append_Nil append_assoc
          Let_def)
  show ?thesis
    by (rule conjI, rule closed) (simp add: closed)
qed

theorem useModelShow_parameter_order_witness:
  "trim ''my-org'' \<noteq> [] \<and>
   useModelShow_finalUrl ''posts'' (JNum 1) ''my-org''
     \<lparr> opt_filters = Some [(''status'', JStr ''active'')], opt_includes = Some [''author'', ''tags''],
       opt_sort = Some ''-id'', opt_fields = Some [''id'', ''title''], opt_search = Some ''x'',
       opt_page = Some 3, opt_perPage = Some 10, opt_per_page = None \<rparr> =
     Inr ''/my-org/posts/1?include=author%2Ctags&filter%5Bstatus%5D=active&sort=-id&fields=id%2Ctitle''"
proof -
  have t: "trim ''my-org'' \<noteq> []"
    by code_simp
  have "useModelShow_finalUrl ''posts'' (JNum 1) ''my-org''
     \<lparr> opt_filters = Some [(''status'', JStr ''active'')], opt_includes = Some [''author'', ''tags''],
       opt_sort = Some ''-id'', opt_fields = Some [''id'', ''title''], opt_search = Some ''x'',
       opt_page = Some 3, opt_perPage = Some 10, opt_per_page = None \<rparr> =
     Inr ''/my-org/posts/1?include=author%2Ctags&filter%5Bstatus%5D=active&sort=-id&fields=id%2Ctitle''"
    unfolding useModelShow_parameter_order [OF t, THEN conjunct1]
    by code_simp
  with t show ?thesis ..
qed

section \<open>Properties of nested operations\<close>

lemma foldl_set_add:
  "distinct acc \<Longrightarrow>
     distinct (foldl set_add acc xs) \<and> set (foldl set_add acc xs) = set acc \<union> set xs"
proof (induction xs arbitrary: acc)
  case Nil
  then show ?case by simp
next
  case (Cons x xs)
  have "distinct (set_add acc x)" "set (set_add acc x) = insert x (set acc)"
    using Cons.prems by (auto simp: set_add_def)
  with Cons.IH [of "set_add acc x"] show ?case by auto
qed

lemma new_Set_distinct: "distinct (new_Set xs)"
  using foldl_set_add [of "[]" xs] by (simp add: new_Set_def)

lemma new_Set_set: "set (new_Set xs) = set xs"
  using foldl_set_add [of "[]" xs] by (simp add: new_Set_def)

lemma foldl_invalidate:
  "foldl (\<lambda>c' model. invalidateQueries (k2 model) (invalidateQueries (k1 model) c')) c ms =
     c\<lparr>invalidated := invalidated c @ concat (map (\<lambda>m. [k1 m, k2 m]) ms)\<rparr>"
  by (induction ms arbitrary: c) (simp_all add: invalidateQueries_def)

lemma onSuccess_eq:
  "onSuccess operations c =
     c\<lparr>invalidated := invalidated c @
          concat (map (\<lambda>m. [QueryKey ''modelIndex'' m, QueryKey ''modelShow'' m])
                    (new_Set (map op_model operations)))\<rparr>"
  by (simp add: onSuccess_def Let_def foldl_invalidate)

lemma useNestedOperations_eq:
  "organization \<noteq> [] \<Longrightarrow>
   useNestedOperations organization backend operations c =
     (let rq = Post (''/'' @ organization @ ''/nested-operations'') operations;
          c' = c\<lparr>sent := sent c @ [rq]\<rparr>
      in case backend rq of Inl e \<Rightarrow> (Inl e, c') | Inr d \<Rightarrow> (Inr d, onSuccess operations c'))"
  by (simp add: useNestedOperations_def mutationFn_def api_post_def Let_def split: sum.splits)

text \<open>
  C1, as stated, fails: the mutation function validates nothing.  The batch of the
  specification's own example, whose operation 0 holds the token \<open>$1.id\<close>, is posted to
  \<open>/acme/nested-operations\<close>; with a backend that accepts it the mutation succeeds.
\<close>

theorem forward_reference_counterexample:
  "spec_hasForwardReference
     [\<lparr> op_action = Create, op_model = ''a'', op_id = None, op_data = Some [(''x'', JStr ''$1.id'')] \<rparr>,
      \<lparr> op_action = Create, op_model = ''b'', op_id = None, op_data = Some [] \<rparr>] \<and>
   useNestedOperations ''acme'' Inr
     [\<lparr> op_action = Create, op_model = ''a'', op_id = None, op_data = Some [(''x'', JStr ''$1.id'')] \<rparr>,
      \<lparr> op_action = Create, op_model = ''b'', op_id = None, op_data = Some [] \<rparr>]
     \<lparr> sent = [], invalidated = [] \<rparr> =
   (Inr (Post ''/acme/nested-operations''
      [\<lparr> op_action = Create, op_model = ''a'', op_id = None, op_data = Some [(''x'', JStr ''$1.id'')] \<rparr>,
       \<lparr> op_action = Create, op_model = ''b'', op_id = None, op_data = Some [] \<rparr>]),
    \<lparr> sent = [Post ''/acme/nested-operations''
      [\<lparr> op_action = Create, op_model = ''a'', op_id = None, op_data = Some [(''x'', JStr ''$1.id'')] \<rparr>,
       \<lparr> op_action = Create, op_model = ''b'', op_id = None, op_data = Some [] \<rparr>]],
      invalidated = [QueryKey ''modelIndex'' ''a'', QueryKey ''modelShow'' ''a'',
                     QueryKey ''modelIndex'' ''b'', QueryKey ''modelShow'' ''b''] \<rparr>)"
  by code_simp

text \<open>
  C1 (amended): with an organization set, the mutation function of \<open>useNestedOperations\<close>
  performs no local validation: every batch, whatever tokens it holds, is handed unchanged
  to the transport in exactly one \<open>POST /organization/nested-operations\<close>, and the outcome
  of the mutation is the outcome of that request.
\<close>

theorem batch_always_sent:
  assumes "organization \<noteq> []"
  shows "fst (useNestedOperations organization backend operations c) =
           backend (Post (''/'' @ organization @ ''/nested-operations'') operations) \<and>
         sent (snd (useNestedOperations organization backend operations c)) =
           sent c @ [Post (''/'' @ organization @ ''/nested-operations'') operations]"
  by (simp add: useNestedOperations_eq [OF assms] Let_def onSuccess_eq split: sum.splits)

theorem batch_always_sent_witness:
  "''acme'' \<noteq> [] \<and>
   sent (snd (useNestedOperations ''acme'' Inr
     [\<lparr> op_action = Create, op_model = ''posts'', op_id = None,
         op_data = Some [(''blog_id'', JStr ''$0.id'')] \<rparr>]
     \<lparr> sent = [], invalidated = [] \<rparr>)) =
   [Post ''/acme/nested-operations''
     [\<lparr> op_action = Create, op_model = ''posts'', op_id = None,
         op_data = Some [(''blog_id'', JStr ''$0.id'')] \<rparr>]]"
proof -
  have h: "''acme'' \<noteq> []" by simp
  show ?thesis
    using h batch_always_sent [OF h, of Inr
      "[\<lparr> op_action = Create, op_model = ''posts'', op_id = None,
         op_data = Some [(''blog_id'', JStr ''$0.id'')] \<rparr>]" "\<lparr> sent = [], invalidated = [] \<rparr>"]
    by simp
qed

text \<open>
  C8: after a successful batch the models marked for invalidation are the distinct model
  names of the operation list, in the order of their first occurrence; each is marked
  once, by one invalidation of its \<open>modelIndex\<close> key and one of its \<open>modelShow\<close> key.
\<close>

theorem affected_models_invalidated_once:
  assumes "organization \<noteq> []"
    and "backend (Post (''/'' @ organization @ ''/nested-operations'') operations) = Inr d"
  shows "invalidated (snd (useNestedOperations organization backend operations c)) =
           invalidated c @
           concat (map (\<lambda>m. [QueryKey ''modelIndex'' m, QueryKey ''modelShow'' m])
                     (new_Set (map op_model operations))) \<and>
         distinct (new_Set (map op_model operations)) \<and>
         set (new_Set (map op_model operations)) = op_model ` set operations"
  using assms(2)
  by (simp add: useNestedOperations_eq [OF assms(1)] Let_def onSuccess_eq new_Set_distinct new_Set_set)

theorem affected_models_invalidated_once_witness:
  "invalidated (snd (useNestedOperations ''acme'' Inr
     [\<lparr> op_action = Create, op_model = ''blogs'', op_id = None, op_data = Some [(''title'', JStr ''Blog'')] \<rparr>,
      \<lparr> op_action = Create, op_model = ''posts'', op_id = None, op_data = Some [(''title'', JStr ''Post'')] \<rparr>,
      \<lparr> op_action = Update, op_model = ''blogs'', op_id = Some (JNum 1), op_data = Some [(''title'', JStr ''Updated'')] \<rparr>]
     \<lparr> sent = [], invalidated = [] \<rparr>)) =
   [QueryKey ''modelIndex'' ''blogs'', QueryKey ''modelShow'' ''blogs'',
    QueryKey ''modelIndex'' ''posts'', QueryKey ''modelShow'' ''posts'']"
proof -
  let ?ops = "[\<lparr> op_action = Create, op_model = ''blogs'', op_id = None, op_data = Some [(''title'', JStr ''Blog'')] \<rparr>,
      \<lparr> op_action = Create, op_model = ''posts'', op_id = None, op_data = Some [(''title'', JStr ''Post'')] \<rparr>,
      \<lparr> op_action = Update, op_model = ''blogs'', op_id = Some (JNum 1), op_data = Some [(''title'', JStr ''Updated'')] \<rparr>]"
  have h: "''acme'' \<noteq> []" by simp
  have n: "new_Set [''blogs'', ''posts'', ''blogs''] = [''blogs'', ''posts'']"
    by code_simp
  show ?thesis
    using h affected_models_invalidated_once [of "''acme''" Inr ?ops
      "Post ''/acme/nested-operations'' ?ops" "\<lparr> sent = [], invalidated = [] \<rparr>"]
    by (simp add: n)
qed

end
